theory Spec2Isabelle
  imports Main "HOL-Library.Word"
begin

section \<open>Go values used by bytes.go\<close>

type_synonym byte = "8 word"

text \<open>
  A value of the Go type \<^verbatim>\<open>[]byte\<close> is modelled by whether it is nil and by the bytes it
  holds: \<open>None\<close> is the nil slice, \<open>Some bs\<close> a non-nil slice with the elements \<open>bs\<close>
  (so \<open>Some []\<close> is \<^verbatim>\<open>[]byte{}\<close>). This is the value of a slice: the bytes it holds
  at the moment a function returns. Which backing array a slice refers to is not part of
  its value; the section on slice headers below models it, for the constructors, which
  store the slice they are given.
\<close>

type_synonym slice = "byte list option"

definition len :: "slice \<Rightarrow> nat" where
  "len s = (case s of None \<Rightarrow> 0 | Some bs \<Rightarrow> length bs)"

definition elems :: "slice \<Rightarrow> byte list" where
  "elems s = (case s of None \<Rightarrow> [] | Some bs \<Rightarrow> bs)"

text \<open>\<^verbatim>\<open>s[0:0]\<close>: the nil slice stays nil, any other slice becomes non-nil and empty.\<close>

definition reslice00 :: "slice \<Rightarrow> slice" where
  "reslice00 s = (case s of None \<Rightarrow> None | Some bs \<Rightarrow> Some [])"

text \<open>
  \<^verbatim>\<open>append(s, t...)\<close>: the elements of \<open>t\<close> after those of \<open>s\<close>. Appending nothing to
  the nil slice returns the nil slice; every other result is non-nil.
\<close>

definition append_slice :: "slice \<Rightarrow> slice \<Rightarrow> slice" where
  "append_slice s t =
     (case s of
        None \<Rightarrow> (if len t = 0 then None else Some (elems t))
      | Some bs \<Rightarrow> Some (bs @ elems t))"

text \<open>\<^verbatim>\<open>[]byte("...")\<close> for a string literal of ASCII characters.\<close>

definition bytes_of_string :: "string \<Rightarrow> slice" where
  "bytes_of_string s = Some (map of_char s)"

text \<open>
  The Go type \<^verbatim>\<open>error\<close>: a function returning \<^verbatim>\<open>error\<close> returns \<open>None\<close> for
  \<^verbatim>\<open>nil\<close>. The only errors bytes.go can return are those of the conversion routine.
\<close>

datatype error = ConversionError string

text \<open>
  A value of type \<^verbatim>\<open>interface{}\<close> (and of \<^verbatim>\<open>driver.Value\<close>, which is the same type):
  \<open>None\<close> is the nil interface, \<open>Some d\<close> holds a dynamic value, either a byte slice
  (possibly a nil one) or a value of some other type.
\<close>

datatype 'a dyn = ByteSlice slice | Other 'a

type_synonym 'a interface = "'a dyn option"

section \<open>The holder\<close>

record NullBytes =
  Bytes :: slice
  Valid :: bool

record Bytes =
  NullBytes :: NullBytes

definition NewBytes :: "slice \<Rightarrow> bool \<Rightarrow> Bytes" where
  "NewBytes b valid = \<lparr>NullBytes = \<lparr>Bytes = b, Valid = valid\<rparr>\<rparr>"

definition BytesFrom :: "slice \<Rightarrow> Bytes" where
  "BytesFrom b = NewBytes b (len b \<noteq> 0)"

text \<open>
  The argument is a \<^verbatim>\<open>*[]byte\<close>: \<open>None\<close> is the nil pointer, \<open>Some s\<close> points to \<open>s\<close>.
  This is the value of the result; \<open>BytesFromPtr_hdr\<close> below says which array it refers to.
\<close>

definition BytesFromPtr :: "slice option \<Rightarrow> Bytes" where
  "BytesFromPtr b =
     (case b of
        None \<Rightarrow> NewBytes None False
      | Some s \<Rightarrow> if len s = 0 then NewBytes None False else NewBytes s True)"

text \<open>
  Methods with a pointer receiver return the receiver's new state together with their
  result.
\<close>

definition UnmarshalJSON :: "Bytes \<Rightarrow> slice \<Rightarrow> Bytes \<times> error option" where
  "UnmarshalJSON b data =
     (if data = None \<or> len data = 0
      then (b\<lparr>NullBytes := (NullBytes b)\<lparr>Bytes := None, Valid := False\<rparr>\<rparr>, None)
      else (b\<lparr>NullBytes := (NullBytes b)
               \<lparr>Bytes := append_slice (reslice00 (Bytes (NullBytes b))) data,
                Valid := True\<rparr>\<rparr>, None))"

definition UnmarshalText :: "Bytes \<Rightarrow> slice \<Rightarrow> Bytes \<times> error option" where
  "UnmarshalText b text =
     (if text = None \<or> len text = 0
      then (b\<lparr>NullBytes := (NullBytes b)\<lparr>Valid := False\<rparr>\<rparr>, None)
      else (b\<lparr>NullBytes := (NullBytes b)
               \<lparr>Bytes := append_slice (reslice00 (Bytes (NullBytes b))) text,
                Valid := True\<rparr>\<rparr>, None))"

definition MarshalJSON :: "Bytes \<Rightarrow> slice \<times> error option" where
  "MarshalJSON b =
     (if \<not> Valid (NullBytes b) then (bytes_of_string ''null'', None)
      else (Bytes (NullBytes b), None))"

definition MarshalText :: "Bytes \<Rightarrow> slice \<times> error option" where
  "MarshalText b =
     (if \<not> Valid (NullBytes b) then (None, None)
      else (Bytes (NullBytes b), None))"

definition SetValid :: "Bytes \<Rightarrow> slice \<Rightarrow> Bytes" where
  "SetValid b n = b\<lparr>NullBytes := (NullBytes b)\<lparr>Bytes := n, Valid := True\<rparr>\<rparr>"

text \<open>The result is a \<^verbatim>\<open>*[]byte\<close>, read at the moment of the call.\<close>

definition Ptr :: "Bytes \<Rightarrow> slice option" where
  "Ptr b = (if \<not> Valid (NullBytes b) then None else Some (Bytes (NullBytes b)))"

definition IsZero :: "Bytes \<Rightarrow> bool" where
  "IsZero b = (\<not> Valid (NullBytes b))"

text \<open>
  \<^verbatim>\<open>convert.ConvertAssign\<close> is imported from another package and is a parameter here:
  \<open>conv dest src\<close> is given the value \<open>dest\<close> that the destination \<^verbatim>\<open>&n.Bytes\<close> holds
  and the driver value \<open>src\<close>, and returns what the destination holds afterwards and the
  error it reports.
\<close>

type_synonym 'a ConvertAssign = "slice \<Rightarrow> 'a interface \<Rightarrow> slice \<times> error option"

definition Scan :: "'a ConvertAssign \<Rightarrow> NullBytes \<Rightarrow> 'a interface \<Rightarrow> NullBytes \<times> error option" where
  "Scan conv n v =
     (if v = None then (n\<lparr>Bytes := Some [], Valid := False\<rparr>, None)
      else
        let n1 = n\<lparr>Valid := True\<rparr>;
            (d, err) = conv (Bytes n1) v
        in (n1\<lparr>Bytes := d\<rparr>, err))"

definition Value :: "NullBytes \<Rightarrow> 'a interface \<times> error option" where
  "Value n = (if \<not> Valid n then (None, None) else (Some (ByteSlice (Bytes n)), None))"


section \<open>Reachable holders\<close>

text \<open>
  The states a holder can take through the exported interface: one of the three
  constructors (the zero value of the type is \<open>NewBytes None False\<close>), then any sequence
  of calls of the two decode methods, of \<^verbatim>\<open>SetValid\<close> and of \<^verbatim>\<open>Scan\<close>, which the
  holder inherits from the embedded \<^verbatim>\<open>NullBytes\<close>.
\<close>

datatype constructor_call =
  Call_NewBytes slice bool
| Call_BytesFrom slice
| Call_BytesFromPtr "slice option"

datatype 'a method_call =
  Call_UnmarshalJSON slice
| Call_UnmarshalText slice
| Call_SetValid slice
| Call_Scan "'a interface"

fun construct :: "constructor_call \<Rightarrow> Bytes" where
  "construct (Call_NewBytes b valid) = NewBytes b valid"
| "construct (Call_BytesFrom b) = BytesFrom b"
| "construct (Call_BytesFromPtr p) = BytesFromPtr p"

fun call :: "'a ConvertAssign \<Rightarrow> Bytes \<Rightarrow> 'a method_call \<Rightarrow> Bytes" where
  "call conv h (Call_UnmarshalJSON data) = fst (UnmarshalJSON h data)"
| "call conv h (Call_UnmarshalText text) = fst (UnmarshalText h text)"
| "call conv h (Call_SetValid n) = SetValid h n"
| "call conv h (Call_Scan v) = h\<lparr>NullBytes := fst (Scan conv (NullBytes h) v)\<rparr>"

definition run :: "'a ConvertAssign \<Rightarrow> constructor_call \<Rightarrow> 'a method_call list \<Rightarrow> Bytes" where
  "run conv c ms = foldl (call conv) (construct c) ms"

section \<open>Slice headers and backing arrays\<close>

text \<open>
  A non-nil Go slice is a header: a reference to a backing array, the position of its
  first element in that array, a length and a capacity. Copying a slice (passing it,
  assigning it, storing it in a struct, dereferencing a pointer to it) copies the header
  and not the array, so both slices then read and write the same bytes. The store is
  the list of the backing arrays allocated so far, and an array's address is its index.
\<close>

type_synonym addr = nat

type_synonym store = "byte list list"

record header =
  array :: addr
  offset :: nat
  hlen :: nat
  hcap :: nat

type_synonym slice_hdr = "header option"

definition len_hdr :: "slice_hdr \<Rightarrow> nat" where
  "len_hdr s = (case s of None \<Rightarrow> 0 | Some r \<Rightarrow> hlen r)"

text \<open>
  A header is in the store when its array is allocated and has room for the capacity,
  and the length is within the capacity. Go builds no other headers.
\<close>

definition in_store :: "store \<Rightarrow> slice_hdr \<Rightarrow> bool" where
  "in_store st s =
     (case s of
        None \<Rightarrow> True
      | Some r \<Rightarrow> array r < length st \<and> hlen r \<le> hcap r \<and>
                  offset r + hcap r \<le> length (st ! array r))"

text \<open>The value of a slice in a store: the bytes its header selects from its array.\<close>

definition load :: "store \<Rightarrow> slice_hdr \<Rightarrow> slice" where
  "load st s =
     (case s of
        None \<Rightarrow> None
      | Some r \<Rightarrow>
          Some (if array r < length st then take (hlen r) (drop (offset r) (st ! array r))
                else []))"

text \<open>
  \<^verbatim>\<open>s[i] = v\<close>: the write goes to the backing array; an index outside the length
  panics (\<open>None\<close>).
\<close>

definition assign_index :: "store \<Rightarrow> slice_hdr \<Rightarrow> nat \<Rightarrow> byte \<Rightarrow> store option" where
  "assign_index st s i v =
     (case s of
        None \<Rightarrow> None
      | Some r \<Rightarrow>
          if i < hlen r \<and> array r < length st
          then Some (st[array r := (st ! array r)[offset r + i := v]])
          else None)"

text \<open>The holder with its data as a header, and the three constructors on it.\<close>

record NullBytes_hdr =
  Bytes_hdr :: slice_hdr
  Valid_hdr :: bool

record Bytes_hdr =
  NullBytes_hdr :: NullBytes_hdr

definition NewBytes_hdr :: "slice_hdr \<Rightarrow> bool \<Rightarrow> Bytes_hdr" where
  "NewBytes_hdr b valid = \<lparr>NullBytes_hdr = \<lparr>Bytes_hdr = b, Valid_hdr = valid\<rparr>\<rparr>"

definition BytesFrom_hdr :: "slice_hdr \<Rightarrow> Bytes_hdr" where
  "BytesFrom_hdr b = NewBytes_hdr b (len_hdr b \<noteq> 0)"

text \<open>
  \<^verbatim>\<open>NewBytes(*b, true)\<close> stores the header that \<open>b\<close> points to; no array is allocated
  and no byte is moved, so the function does not touch the store.
\<close>

definition BytesFromPtr_hdr :: "slice_hdr option \<Rightarrow> Bytes_hdr" where
  "BytesFromPtr_hdr b =
     (case b of
        None \<Rightarrow> NewBytes_hdr None False
      | Some s \<Rightarrow> if len_hdr s = 0 then NewBytes_hdr None False else NewBytes_hdr s True)"

text \<open>The value of a holder in a store.\<close>

definition view :: "store \<Rightarrow> Bytes_hdr \<Rightarrow> Bytes" where
  "view st h =
     \<lparr>NullBytes = \<lparr>Bytes = load st (Bytes_hdr (NullBytes_hdr h)),
                   Valid = Valid_hdr (NullBytes_hdr h)\<rparr>\<rparr>"

section \<open>Facts about slices\<close>

lemma len_None [simp]: "len None = 0"
  by (simp add: len_def)

lemma len_Some [simp]: "len (Some bs) = length bs"
  by (simp add: len_def)

lemma elems_None [simp]: "elems None = []"
  by (simp add: elems_def)

lemma elems_Some [simp]: "elems (Some bs) = bs"
  by (simp add: elems_def)

lemma nil_or_empty: "(s = None \<or> len s = 0) \<longleftrightarrow> len s = 0"
  by (cases s) simp_all

lemma len_elems: "len s = length (elems s)"
  by (cases s) simp_all

lemma nonempty_is_Some: "len s \<noteq> 0 \<Longrightarrow> s = Some (elems s)"
  by (cases s) simp_all

text \<open>Appending a non-empty slice to \<^verbatim>\<open>s[0:0]\<close> gives a slice holding exactly its bytes.\<close>

lemma append_reslice00: "len t \<noteq> 0 \<Longrightarrow> append_slice (reslice00 s) t = t"
  by (cases s; cases t) (simp_all add: append_slice_def reslice00_def)

lemma null_token: "bytes_of_string ''null'' = Some [0x6E, 0x75, 0x6C, 0x6C]"
  by (simp add: bytes_of_string_def)

lemma len_null_token: "len (bytes_of_string ''null'') = 4"
  by (simp add: bytes_of_string_def)

section \<open>The two branches of the decode methods\<close>

lemma UnmarshalJSON_empty:
  "len data = 0 \<Longrightarrow>
     UnmarshalJSON b data = (b\<lparr>NullBytes := (NullBytes b)\<lparr>Bytes := None, Valid := False\<rparr>\<rparr>, None)"
  unfolding UnmarshalJSON_def nil_or_empty by simp

lemma UnmarshalJSON_nonempty:
  "len data \<noteq> 0 \<Longrightarrow>
     UnmarshalJSON b data = (b\<lparr>NullBytes := (NullBytes b)\<lparr>Bytes := data, Valid := True\<rparr>\<rparr>, None)"
  unfolding UnmarshalJSON_def nil_or_empty by (simp add: append_reslice00)

lemma UnmarshalText_empty:
  "len text = 0 \<Longrightarrow>
     UnmarshalText b text = (b\<lparr>NullBytes := (NullBytes b)\<lparr>Valid := False\<rparr>\<rparr>, None)"
  unfolding UnmarshalText_def nil_or_empty by simp

lemma UnmarshalText_nonempty:
  "len text \<noteq> 0 \<Longrightarrow>
     UnmarshalText b text = (b\<lparr>NullBytes := (NullBytes b)\<lparr>Bytes := text, Valid := True\<rparr>\<rparr>, None)"
  unfolding UnmarshalText_def nil_or_empty by (simp add: append_reslice00)

section \<open>Structured encoding\<close>

text \<open>
  C5. \<^verbatim>\<open>UnmarshalJSON\<close>, from any prior state of the holder: an empty input (nil or of
  length zero) makes the holder invalid and sets its data to nil; a non-empty input
  becomes the holder's data, byte for byte, and the holder becomes valid; the returned
  error is nil for every input.
\<close>

theorem C5_UnmarshalJSON:
  "(len data = 0 \<longrightarrow>
      \<not> Valid (NullBytes (fst (UnmarshalJSON b data))) \<and>
      Bytes (NullBytes (fst (UnmarshalJSON b data))) = None) \<and>
   (len data \<noteq> 0 \<longrightarrow>
      Valid (NullBytes (fst (UnmarshalJSON b data))) \<and>
      Bytes (NullBytes (fst (UnmarshalJSON b data))) = data) \<and>
   snd (UnmarshalJSON b data) = None"
  by (cases "len data = 0") (simp_all add: UnmarshalJSON_empty UnmarshalJSON_nonempty)

theorem C5_UnmarshalJSON_witness:
  "(len (Some []) = 0 \<and>
      \<not> Valid (NullBytes (fst (UnmarshalJSON (NewBytes (Some [1, 2]) True) (Some [])))) \<and>
      Bytes (NullBytes (fst (UnmarshalJSON (NewBytes (Some [1, 2]) True) (Some [])))) = None) \<and>
   (len (Some [0x22, 0x61, 0x22]) \<noteq> 0 \<and>
      Valid (NullBytes (fst (UnmarshalJSON (NewBytes (Some [1, 2]) False) (Some [0x22, 0x61, 0x22])))) \<and>
      Bytes (NullBytes (fst (UnmarshalJSON (NewBytes (Some [1, 2]) False) (Some [0x22, 0x61, 0x22]))))
        = Some [0x22, 0x61, 0x22])"
  using C5_UnmarshalJSON [of "Some []" "NewBytes (Some [1, 2]) True"]
        C5_UnmarshalJSON [of "Some [0x22, 0x61, 0x22]" "NewBytes (Some [1, 2]) False"]
  by simp


text \<open>
  C1, as amended. \<^verbatim>\<open>MarshalJSON\<close> of an invalid holder returns the four bytes
  \<^verbatim>\<open>null\<close> and no error, whatever data the holder has. \<^verbatim>\<open>UnmarshalJSON\<close> of these
  four bytes, into a holder \<open>g\<close> in any state, gives a valid holder whose data is the
  four bytes; \<^verbatim>\<open>UnmarshalJSON\<close> of an input \<open>d\<close> leaves the holder invalid exactly when
  \<open>d\<close> is empty.
\<close>

theorem C1_null_token_is_stored:
  "\<not> Valid (NullBytes h) \<Longrightarrow>
     fst (MarshalJSON h) = bytes_of_string ''null'' \<and>
     len (fst (MarshalJSON h)) = 4 \<and>
     snd (MarshalJSON h) = None \<and>
     Valid (NullBytes (fst (UnmarshalJSON g (fst (MarshalJSON h))))) \<and>
     Bytes (NullBytes (fst (UnmarshalJSON g (fst (MarshalJSON h))))) = bytes_of_string ''null'' \<and>
     (\<not> Valid (NullBytes (fst (UnmarshalJSON g d)))) = (len d = 0)"
  by (cases "len d = 0")
     (simp_all add: MarshalJSON_def UnmarshalJSON_empty UnmarshalJSON_nonempty len_null_token)

theorem C1_null_token_is_stored_witness:
  "\<not> Valid (NullBytes (NewBytes (Some [1, 2, 3]) False)) \<and>
   fst (MarshalJSON (NewBytes (Some [1, 2, 3]) False)) = Some [0x6E, 0x75, 0x6C, 0x6C] \<and>
   Valid (NullBytes (fst (UnmarshalJSON (NewBytes None False)
                            (fst (MarshalJSON (NewBytes (Some [1, 2, 3]) False)))))) \<and>
   Bytes (NullBytes (fst (UnmarshalJSON (NewBytes None False)
                            (fst (MarshalJSON (NewBytes (Some [1, 2, 3]) False))))))
     = Some [0x6E, 0x75, 0x6C, 0x6C]"
  using C1_null_token_is_stored [of "NewBytes (Some [1, 2, 3]) False" "NewBytes None False"]
  by (simp add: NewBytes_def MarshalJSON_def UnmarshalJSON_nonempty null_token)

text \<open>
  The null round trip as the specification states it fails: the zero holder is invalid,
  and decoding what \<^verbatim>\<open>MarshalJSON\<close> returns for it gives a valid holder.
\<close>

theorem C1_null_round_trip_counterexample:
  "\<not> (fst (MarshalJSON (NewBytes None False)) = bytes_of_string ''null'' \<and>
      Valid (NullBytes (fst (UnmarshalJSON (NewBytes None False)
                               (fst (MarshalJSON (NewBytes None False)))))) = False)"
  by (simp add: MarshalJSON_def UnmarshalJSON_nonempty NewBytes_def len_null_token)

text \<open>
  C2, as amended. For a valid holder \<open>h\<close> whose data is not empty, \<^verbatim>\<open>UnmarshalJSON\<close>
  of what \<^verbatim>\<open>MarshalJSON\<close> returns for \<open>h\<close>, into a holder \<open>g\<close> in any state (\<open>h\<close>
  itself included), gives a valid holder with the same bytes as \<open>h\<close>, and neither call
  returns an error.
\<close>

theorem C2_round_trip_nonempty:
  "Valid (NullBytes h) \<and> len (Bytes (NullBytes h)) \<noteq> 0 \<Longrightarrow>
     Valid (NullBytes (fst (UnmarshalJSON g (fst (MarshalJSON h))))) \<and>
     Bytes (NullBytes (fst (UnmarshalJSON g (fst (MarshalJSON h))))) = Bytes (NullBytes h) \<and>
     snd (MarshalJSON h) = None \<and>
     snd (UnmarshalJSON g (fst (MarshalJSON h))) = None"
  by (simp add: MarshalJSON_def UnmarshalJSON_nonempty)

theorem C2_round_trip_nonempty_witness:
  "(Valid (NullBytes (NewBytes (Some [0x31, 0x32]) True)) \<and>
    len (Bytes (NullBytes (NewBytes (Some [0x31, 0x32]) True))) \<noteq> 0) \<and>
   Valid (NullBytes (fst (UnmarshalJSON (NewBytes (Some [9]) False)
                            (fst (MarshalJSON (NewBytes (Some [0x31, 0x32]) True)))))) \<and>
   Bytes (NullBytes (fst (UnmarshalJSON (NewBytes (Some [9]) False)
                            (fst (MarshalJSON (NewBytes (Some [0x31, 0x32]) True))))))
     = Some [0x31, 0x32]"
  using C2_round_trip_nonempty [of "NewBytes (Some [0x31, 0x32]) True" "NewBytes (Some [9]) False"]
  by (simp add: NewBytes_def)

text \<open>
  The round trip fails for a valid holder with empty data: \<^verbatim>\<open>MarshalJSON\<close> returns the
  empty data, and \<^verbatim>\<open>UnmarshalJSON\<close> of an empty input makes the holder invalid.
\<close>

theorem C2_round_trip_empty_counterexample:
  "Valid (NullBytes (NewBytes (Some []) True)) \<and>
   \<not> Valid (NullBytes (fst (UnmarshalJSON (NewBytes (Some []) True)
                              (fst (MarshalJSON (NewBytes (Some []) True))))))"
  by (simp add: MarshalJSON_def UnmarshalJSON_empty NewBytes_def)

text \<open>
  C10. A valid holder with empty data is reachable: \<^verbatim>\<open>NewBytes(nil, true)\<close> is one, and
  so is any holder after \<^verbatim>\<open>SetValid(nil)\<close>. For every valid holder whose data has length
  zero (nil or not), \<^verbatim>\<open>MarshalJSON\<close> returns a slice of length zero, which is not the
  \<^verbatim>\<open>null\<close> token, and no error.
\<close>

theorem C10_valid_empty_marshals_to_nothing:
  "Valid (NullBytes (run conv (Call_NewBytes None True) [])) \<and>
   len (Bytes (NullBytes (run conv (Call_NewBytes None True) []))) = 0 \<and>
   Valid (NullBytes (run conv c (ms @ [Call_SetValid None]))) \<and>
   len (Bytes (NullBytes (run conv c (ms @ [Call_SetValid None])))) = 0 \<and>
   (Valid (NullBytes h) \<and> len (Bytes (NullBytes h)) = 0 \<longrightarrow>
      len (fst (MarshalJSON h)) = 0 \<and>
      fst (MarshalJSON h) \<noteq> bytes_of_string ''null'' \<and>
      snd (MarshalJSON h) = None)"
  by (auto simp add: run_def NewBytes_def SetValid_def MarshalJSON_def bytes_of_string_def)

theorem C10_valid_empty_marshals_to_nothing_witness:
  "(Valid (NullBytes (NewBytes None True)) \<and> len (Bytes (NullBytes (NewBytes None True))) = 0) \<and>
   MarshalJSON (NewBytes None True) = (None, None) \<and>
   (Valid (NullBytes (SetValid (BytesFrom (Some [1])) (Some []))) \<and>
    len (Bytes (NullBytes (SetValid (BytesFrom (Some [1])) (Some [])))) = 0) \<and>
   MarshalJSON (SetValid (BytesFrom (Some [1])) (Some [])) = (Some [], None)"
  using C10_valid_empty_marshals_to_nothing [where h = "NewBytes None True"]
        C10_valid_empty_marshals_to_nothing [where h = "SetValid (BytesFrom (Some [1])) (Some [])"]
  by (simp add: NewBytes_def SetValid_def BytesFrom_def MarshalJSON_def)

section \<open>Plain text\<close>

text \<open>
  C4. \<^verbatim>\<open>UnmarshalText\<close> of an empty input (nil or of length zero) makes the holder
  invalid and changes nothing else: its data is what it was before the call.
  \<^verbatim>\<open>UnmarshalText\<close> of a non-empty input makes the input's bytes the holder's data and
  the holder valid. The returned error is nil in both cases.
\<close>

theorem C4_UnmarshalText:
  "(len text = 0 \<longrightarrow>
      \<not> Valid (NullBytes (fst (UnmarshalText b text))) \<and>
      Bytes (NullBytes (fst (UnmarshalText b text))) = Bytes (NullBytes b) \<and>
      fst (UnmarshalText b text) = b\<lparr>NullBytes := (NullBytes b)\<lparr>Valid := False\<rparr>\<rparr>) \<and>
   (len text \<noteq> 0 \<longrightarrow>
      Valid (NullBytes (fst (UnmarshalText b text))) \<and>
      Bytes (NullBytes (fst (UnmarshalText b text))) = text) \<and>
   snd (UnmarshalText b text) = None"
  by (cases "len text = 0") (simp_all add: UnmarshalText_empty UnmarshalText_nonempty)

theorem C4_UnmarshalText_witness:
  "(len (Some []) = 0 \<and>
      \<not> Valid (NullBytes (fst (UnmarshalText (NewBytes (Some [1, 2]) True) (Some [])))) \<and>
      Bytes (NullBytes (fst (UnmarshalText (NewBytes (Some [1, 2]) True) (Some [])))) = Some [1, 2]) \<and>
   (len (Some [0x61, 0x62, 0x63]) \<noteq> 0 \<and>
      Valid (NullBytes (fst (UnmarshalText (NewBytes (Some [1, 2]) False) (Some [0x61, 0x62, 0x63])))) \<and>
      Bytes (NullBytes (fst (UnmarshalText (NewBytes (Some [1, 2]) False) (Some [0x61, 0x62, 0x63]))))
        = Some [0x61, 0x62, 0x63])"
  using C4_UnmarshalText [of "Some []" "NewBytes (Some [1, 2]) True"]
        C4_UnmarshalText [of "Some [0x61, 0x62, 0x63]" "NewBytes (Some [1, 2]) False"]
  by (simp add: NewBytes_def)

text \<open>
  C7, as amended. \<^verbatim>\<open>MarshalText\<close> of an invalid holder returns the nil slice, which
  differs from what it returns for a valid holder \<open>g\<close> whose data is the non-nil empty
  slice. \<^verbatim>\<open>MarshalText\<close> of a valid holder returns the holder's data as it is. The
  returned error is always nil.
\<close>

theorem C7_MarshalText:
  "(\<not> Valid (NullBytes h) \<longrightarrow> fst (MarshalText h) = None) \<and>
   (\<not> Valid (NullBytes h) \<and> Valid (NullBytes g) \<and> Bytes (NullBytes g) = Some [] \<longrightarrow>
      fst (MarshalText g) = Some [] \<and> fst (MarshalText h) \<noteq> fst (MarshalText g)) \<and>
   (Valid (NullBytes h) \<longrightarrow> fst (MarshalText h) = Bytes (NullBytes h)) \<and>
   snd (MarshalText h) = None"
  by (simp add: MarshalText_def)

theorem C7_MarshalText_witness:
  "(\<not> Valid (NullBytes (NewBytes (Some [7]) False)) \<and>
    Valid (NullBytes (NewBytes (Some []) True)) \<and>
    Bytes (NullBytes (NewBytes (Some []) True)) = Some [] \<and>
    fst (MarshalText (NewBytes (Some [7]) False)) = None \<and>
    fst (MarshalText (NewBytes (Some [7]) False)) \<noteq> fst (MarshalText (NewBytes (Some []) True))) \<and>
   (Valid (NullBytes (NewBytes (Some [7]) True)) \<and>
    fst (MarshalText (NewBytes (Some [7]) True)) = Some [7])"
  using C7_MarshalText [of "NewBytes (Some [7]) False" "NewBytes (Some []) True"]
        C7_MarshalText [of "NewBytes (Some [7]) True" "NewBytes (Some []) True"]
  by (simp add: NewBytes_def)

text \<open>
  A valid holder whose data is nil holds an empty value, and \<^verbatim>\<open>MarshalText\<close> returns
  for it exactly what it returns for an invalid holder: the nil slice and no error.
\<close>

theorem C7_valid_nil_counterexample:
  "Valid (NullBytes (NewBytes None True)) \<and>
   len (Bytes (NullBytes (NewBytes None True))) = 0 \<and>
   \<not> Valid (NullBytes (NewBytes None False)) \<and>
   MarshalText (NewBytes None False) = MarshalText (NewBytes None True)"
  by (simp add: MarshalText_def NewBytes_def)

section \<open>Storage driver\<close>

text \<open>
  C3. \<^verbatim>\<open>Scan\<close> of the nil interface sets the data to the non-nil empty slice, makes
  the holder invalid and returns no error. \<^verbatim>\<open>Scan\<close> of any other value \<open>v\<close> leaves the
  holder valid, with the data the conversion routine stored, and returns what the
  conversion routine returned; in particular, when the conversion fails with an error
  \<open>e\<close>, \<^verbatim>\<open>Scan\<close> returns \<open>e\<close> and the holder is valid.
\<close>

theorem C3_Scan:
  "Scan conv n None = (n\<lparr>Bytes := Some [], Valid := False\<rparr>, None) \<and>
   (v \<noteq> None \<longrightarrow>
      Valid (fst (Scan conv n v)) \<and>
      Bytes (fst (Scan conv n v)) = fst (conv (Bytes n) v) \<and>
      snd (Scan conv n v) = snd (conv (Bytes n) v)) \<and>
   (v \<noteq> None \<and> snd (conv (Bytes n) v) = Some e \<longrightarrow>
      snd (Scan conv n v) = Some e \<and> Valid (fst (Scan conv n v)))"
  by (simp add: Scan_def split: prod.splits)

theorem C3_Scan_witness:
  "Some (Other True) \<noteq> None \<and>
   snd ((\<lambda>dest src. (dest, Some (ConversionError ''unsupported''))) (Bytes \<lparr>Bytes = None, Valid = False\<rparr>)
          (Some (Other True)))
     = Some (ConversionError ''unsupported'') \<and>
   snd (Scan (\<lambda>dest src. (dest, Some (ConversionError ''unsupported''))) \<lparr>Bytes = None, Valid = False\<rparr>
          (Some (Other True)))
     = Some (ConversionError ''unsupported'') \<and>
   Valid (fst (Scan (\<lambda>dest src. (dest, Some (ConversionError ''unsupported'')))
                 \<lparr>Bytes = None, Valid = False\<rparr> (Some (Other True))))"
  using C3_Scan [of "\<lambda>dest src. (dest, Some (ConversionError ''unsupported''))"
                    "\<lparr>Bytes = None, Valid = False\<rparr>" "Some (Other True)"
                    "ConversionError ''unsupported''"]
  by simp

text \<open>
  C6. \<^verbatim>\<open>Value\<close> of an invalid holder returns the nil interface, hence no byte slice
  \<open>s\<close>, whatever the holder's data is. \<^verbatim>\<open>Value\<close> of a valid holder returns the
  holder's data as a byte slice. The returned error is always nil.
\<close>

theorem C6_Value:
  "(\<not> Valid n \<longrightarrow>
      fst (Value n :: 'a interface \<times> error option) = None \<and>
      fst (Value n :: 'a interface \<times> error option) \<noteq> Some (ByteSlice s)) \<and>
   (Valid n \<longrightarrow> fst (Value n :: 'a interface \<times> error option) = Some (ByteSlice (Bytes n))) \<and>
   snd (Value n :: 'a interface \<times> error option) = None"
  by (simp add: Value_def)

theorem C6_Value_witness:
  "(\<not> Valid \<lparr>Bytes = Some [1, 2], Valid = False\<rparr> \<and>
    fst (Value \<lparr>Bytes = Some [1, 2], Valid = False\<rparr> :: unit interface \<times> error option) = None) \<and>
   (Valid \<lparr>Bytes = Some [1, 2], Valid = True\<rparr> \<and>
    fst (Value \<lparr>Bytes = Some [1, 2], Valid = True\<rparr> :: unit interface \<times> error option)
      = Some (ByteSlice (Some [1, 2])))"
  using C6_Value [of "\<lparr>Bytes = Some [1, 2], Valid = False\<rparr>" "Some [1, 2]", where 'a = unit]
        C6_Value [of "\<lparr>Bytes = Some [1, 2], Valid = True\<rparr>" "Some [1, 2]", where 'a = unit]
  by simp

section \<open>Constructors and the emptiness predicate\<close>

text \<open>
  The constructors on values are the constructors on headers, seen through the store.
\<close>

lemma len_load: "in_store st s \<Longrightarrow> len (load st s) = len_hdr s"
  by (cases s) (auto simp add: in_store_def load_def len_hdr_def)

lemma view_NewBytes_hdr: "view st (NewBytes_hdr b valid) = NewBytes (load st b) valid"
  by (simp add: view_def NewBytes_hdr_def NewBytes_def)

lemma view_BytesFrom_hdr:
  "in_store st b \<Longrightarrow> view st (BytesFrom_hdr b) = BytesFrom (load st b)"
  by (simp add: BytesFrom_hdr_def BytesFrom_def view_NewBytes_hdr len_load)

lemma load_None: "load st None = None"
  by (simp add: load_def)

lemma view_BytesFromPtr_hdr_nil: "view st (BytesFromPtr_hdr None) = BytesFromPtr None"
  by (simp add: BytesFromPtr_hdr_def BytesFromPtr_def view_NewBytes_hdr load_None)

lemma view_BytesFromPtr_hdr:
  "in_store st s \<Longrightarrow> view st (BytesFromPtr_hdr (Some s)) = BytesFromPtr (Some (load st s))"
  by (simp add: BytesFromPtr_hdr_def BytesFromPtr_def view_NewBytes_hdr len_load load_None)

text \<open>
  C8, as amended. \<^verbatim>\<open>BytesFrom(b)\<close> holds \<open>b\<close> and is valid exactly when the length of
  \<open>b\<close> is not zero. \<^verbatim>\<open>BytesFromPtr\<close> of the nil pointer, and of a pointer to a slice of
  length zero, is the invalid holder with nil data. \<^verbatim>\<open>BytesFromPtr\<close> of a pointer to a
  slice \<open>s\<close> of another length is valid and its data is \<open>s\<close> itself: the same header on
  the same backing array. So the holder reads the bytes of \<open>s\<close> in every store, the one
  after a write \<^verbatim>\<open>s[i] = v\<close> included: the bytes are shared with \<open>s\<close>, not copied.
\<close>

theorem C8_constructors_share:
  "Valid_hdr (NullBytes_hdr (BytesFrom_hdr b)) = (len_hdr b \<noteq> 0) \<and>
   Bytes_hdr (NullBytes_hdr (BytesFrom_hdr b)) = b \<and>
   \<not> Valid_hdr (NullBytes_hdr (BytesFromPtr_hdr None)) \<and>
   Bytes_hdr (NullBytes_hdr (BytesFromPtr_hdr None)) = None \<and>
   (len_hdr s = 0 \<longrightarrow>
      \<not> Valid_hdr (NullBytes_hdr (BytesFromPtr_hdr (Some s))) \<and>
      Bytes_hdr (NullBytes_hdr (BytesFromPtr_hdr (Some s))) = None) \<and>
   (len_hdr s \<noteq> 0 \<longrightarrow>
      Valid_hdr (NullBytes_hdr (BytesFromPtr_hdr (Some s))) \<and>
      Bytes_hdr (NullBytes_hdr (BytesFromPtr_hdr (Some s))) = s \<and>
      load st (Bytes_hdr (NullBytes_hdr (BytesFromPtr_hdr (Some s)))) = load st s \<and>
      (assign_index st s i v = Some st' \<longrightarrow>
         load st' (Bytes_hdr (NullBytes_hdr (BytesFromPtr_hdr (Some s)))) = load st' s))"
  by (simp add: BytesFrom_hdr_def BytesFromPtr_hdr_def NewBytes_hdr_def)

theorem C8_constructors_share_witness:
  "(len_hdr (Some \<lparr>array = 0, offset = 0, hlen = 0, hcap = 1\<rparr>) = 0 \<and>
    \<not> Valid_hdr (NullBytes_hdr (BytesFromPtr_hdr (Some (Some \<lparr>array = 0, offset = 0, hlen = 0, hcap = 1\<rparr>)))) \<and>
    Bytes_hdr (NullBytes_hdr (BytesFromPtr_hdr (Some (Some \<lparr>array = 0, offset = 0, hlen = 0, hcap = 1\<rparr>))))
      = None) \<and>
   (len_hdr (Some \<lparr>array = 0, offset = 0, hlen = 1, hcap = 1\<rparr>) \<noteq> 0 \<and>
    Valid_hdr (NullBytes_hdr (BytesFromPtr_hdr (Some (Some \<lparr>array = 0, offset = 0, hlen = 1, hcap = 1\<rparr>)))) \<and>
    load [[9]] (Bytes_hdr (NullBytes_hdr (BytesFromPtr_hdr (Some (Some \<lparr>array = 0, offset = 0, hlen = 1, hcap = 1\<rparr>)))))
      = Some [9] \<and>
    assign_index [[9]] (Some \<lparr>array = 0, offset = 0, hlen = 1, hcap = 1\<rparr>) 0 7 = Some [[7]] \<and>
    load [[7]] (Bytes_hdr (NullBytes_hdr (BytesFromPtr_hdr (Some (Some \<lparr>array = 0, offset = 0, hlen = 1, hcap = 1\<rparr>)))))
      = Some [7])"
  using C8_constructors_share [of _ "Some \<lparr>array = 0, offset = 0, hlen = 0, hcap = 1\<rparr>"]
        C8_constructors_share [of _ "Some \<lparr>array = 0, offset = 0, hlen = 1, hcap = 1\<rparr>"
                                  "[[9]]" 0 7 "[[7]]"]
  by (simp add: len_hdr_def load_def assign_index_def)

text \<open>
  The holder does not hold a copy. The caller's slice is the one byte 9 of array 0; the
  holder built from a pointer to it refers to array 0 too, and after the caller's write
  \<^verbatim>\<open>s[0] = 7\<close> the holder's data is no longer the byte 9 it was built from, but 7.
\<close>

theorem C8_not_a_copy_counterexample:
  "in_store [[9]] (Some \<lparr>array = 0, offset = 0, hlen = 1, hcap = 1\<rparr>) \<and>
   load [[9]] (Bytes_hdr (NullBytes_hdr
       (BytesFromPtr_hdr (Some (Some \<lparr>array = 0, offset = 0, hlen = 1, hcap = 1\<rparr>))))) = Some [9] \<and>
   assign_index [[9]] (Some \<lparr>array = 0, offset = 0, hlen = 1, hcap = 1\<rparr>) 0 7 = Some [[7]] \<and>
   load [[7]] (Bytes_hdr (NullBytes_hdr
       (BytesFromPtr_hdr (Some (Some \<lparr>array = 0, offset = 0, hlen = 1, hcap = 1\<rparr>))))) \<noteq> Some [9] \<and>
   map_option array (Bytes_hdr (NullBytes_hdr
       (BytesFromPtr_hdr (Some (Some \<lparr>array = 0, offset = 0, hlen = 1, hcap = 1\<rparr>))))) = Some 0"
  by (simp add: BytesFromPtr_hdr_def NewBytes_hdr_def len_hdr_def load_def assign_index_def
                in_store_def)

text \<open>
  C9. After any constructor and any sequence of calls of the decode methods, of
  \<^verbatim>\<open>SetValid\<close> and of \<^verbatim>\<open>Scan\<close>, \<^verbatim>\<open>IsZero\<close> is true exactly when the holder is
  invalid. The same holds of every holder \<open>h\<close>, and replacing the data of \<open>h\<close> by any
  slice \<open>d\<close> does not change \<^verbatim>\<open>IsZero\<close>.
\<close>

theorem C9_IsZero:
  "IsZero (run conv c ms) = (\<not> Valid (NullBytes (run conv c ms))) \<and>
   IsZero h = (\<not> Valid (NullBytes h)) \<and>
   IsZero (h\<lparr>NullBytes := (NullBytes h)\<lparr>Bytes := d\<rparr>\<rparr>) = IsZero h"
  by (simp add: IsZero_def)

theorem C9_IsZero_witness:
  "IsZero (run (\<lambda>dest src. (dest, Some (ConversionError ''unsupported'')))
             (Call_BytesFrom (Some [1, 2, 3]))
             [Call_Scan (Some (Other True)), Call_UnmarshalText (Some [])]) \<and>
   \<not> IsZero (run (\<lambda>dest src. (dest, Some (ConversionError ''unsupported'')))
               (Call_BytesFromPtr None)
               [Call_UnmarshalJSON (Some [0x7B, 0x7D]), Call_SetValid None])"
  using C9_IsZero [of "\<lambda>dest src. (dest, Some (ConversionError ''unsupported''))"
                      "Call_BytesFrom (Some [1, 2, 3])"
                      "[Call_Scan (Some (Other True)), Call_UnmarshalText (Some [])]"]
        C9_IsZero [of "\<lambda>dest src. (dest, Some (ConversionError ''unsupported''))"
                      "Call_BytesFromPtr None"
                      "[Call_UnmarshalJSON (Some [0x7B, 0x7D]), Call_SetValid None]"]
  by (simp add: run_def UnmarshalText_empty SetValid_def)

end
